theory Spec2Isabelle
  imports Complex_Main "HOL-Library.Monad_Syntax"
begin

section \<open>Small vectors and matrices\<close>

text \<open>
  The kernels compute on \<^verbatim>\<open>float\<close>, \<^verbatim>\<open>glm::vec3\<close>, \<^verbatim>\<open>glm::vec4\<close> and
  \<^verbatim>\<open>glm::mat3\<close>. The scalar type is modelled by \<^typ>\<open>real\<close>: every operation is the
  exact one, without rounding, overflow, infinities or NaN. All statements below are
  statements about the formulas the kernels evaluate, read in exact arithmetic.

  A \<^verbatim>\<open>glm::mat3\<close> is stored by columns: \<^verbatim>\<open>m[i]\<close> is column \<open>i\<close> and \<^verbatim>\<open>m[i][j]\<close>
  is the entry in column \<open>i\<close>, row \<open>j\<close>. The constructor with nine scalars fills
  the columns one after the other.
\<close>

datatype vec3 = Vec3 (vx: real) (vy: real) (vz: real)

datatype vec4 = Vec4 (qx: real) (qy: real) (qz: real) (qw: real)

datatype mat3 = Mat3 (col0: vec3) (col1: vec3) (col2: vec3)

instantiation vec3 :: real_vector
begin

definition zero_vec3 :: vec3 where
  "zero_vec3 = Vec3 0 0 0"

definition plus_vec3 :: "vec3 \<Rightarrow> vec3 \<Rightarrow> vec3" where
  "plus_vec3 a b = Vec3 (vx a + vx b) (vy a + vy b) (vz a + vz b)"

definition minus_vec3 :: "vec3 \<Rightarrow> vec3 \<Rightarrow> vec3" where
  "minus_vec3 a b = Vec3 (vx a - vx b) (vy a - vy b) (vz a - vz b)"

definition uminus_vec3 :: "vec3 \<Rightarrow> vec3" where
  "uminus_vec3 a = Vec3 (- vx a) (- vy a) (- vz a)"

definition scaleR_vec3 :: "real \<Rightarrow> vec3 \<Rightarrow> vec3" where
  "scaleR_vec3 s a = Vec3 (s * vx a) (s * vy a) (s * vz a)"

instance
  by standard
    (simp_all add: zero_vec3_def plus_vec3_def minus_vec3_def uminus_vec3_def
      scaleR_vec3_def algebra_simps)

end

text \<open>\<^verbatim>\<open>v + s\<close> and \<^verbatim>\<open>glm::max(v, s)\<close> with a scalar \<open>s\<close> act on every component.\<close>

definition vadds :: "vec3 \<Rightarrow> real \<Rightarrow> vec3" where
  "vadds a s = Vec3 (vx a + s) (vy a + s) (vz a + s)"

definition vmax :: "vec3 \<Rightarrow> real \<Rightarrow> vec3" where
  "vmax a s = Vec3 (max (vx a) s) (max (vy a) s) (max (vz a) s)"

definition dot :: "vec3 \<Rightarrow> vec3 \<Rightarrow> real" where
  "dot a b = vx a * vx b + vy a * vy b + vz a * vz b"

text \<open>The nine-scalar constructor \<^verbatim>\<open>glm::mat3(x0, y0, z0, x1, y1, z1, x2, y2, z2)\<close>.\<close>

definition mat3_of :: "real \<Rightarrow> real \<Rightarrow> real \<Rightarrow> real \<Rightarrow> real \<Rightarrow> real \<Rightarrow> real \<Rightarrow> real \<Rightarrow> real \<Rightarrow> mat3" where
  "mat3_of x0 y0 z0 x1 y1 z1 x2 y2 z2 = Mat3 (Vec3 x0 y0 z0) (Vec3 x1 y1 z1) (Vec3 x2 y2 z2)"

text \<open>\<^verbatim>\<open>glm::mat3(1.0f)\<close>: the scalar on the diagonal, zero elsewhere.\<close>

definition mat3_diag :: "real \<Rightarrow> mat3" where
  "mat3_diag s = mat3_of s 0 0 0 s 0 0 0 s"

definition transpose_mat3 :: "mat3 \<Rightarrow> mat3" where
  "transpose_mat3 m = mat3_of
     (vx (col0 m)) (vx (col1 m)) (vx (col2 m))
     (vy (col0 m)) (vy (col1 m)) (vy (col2 m))
     (vz (col0 m)) (vz (col1 m)) (vz (col2 m))"

text \<open>
  \<^verbatim>\<open>m * v\<close> is the linear combination of the columns of \<open>m\<close>, and \<^verbatim>\<open>a * b\<close> is the
  matrix product: column \<open>i\<close> of the product is \<open>a\<close> applied to column \<open>i\<close> of \<open>b\<close>.
\<close>

definition mat_vec :: "mat3 \<Rightarrow> vec3 \<Rightarrow> vec3" where
  "mat_vec m v = Vec3
     (vx (col0 m) * vx v + vx (col1 m) * vy v + vx (col2 m) * vz v)
     (vy (col0 m) * vx v + vy (col1 m) * vy v + vy (col2 m) * vz v)
     (vz (col0 m) * vx v + vz (col1 m) * vy v + vz (col2 m) * vz v)"

instantiation mat3 :: "{times, scaleR}"
begin

definition times_mat3 :: "mat3 \<Rightarrow> mat3 \<Rightarrow> mat3" where
  "times_mat3 a b = Mat3 (mat_vec a (col0 b)) (mat_vec a (col1 b)) (mat_vec a (col2 b))"

definition scaleR_mat3 :: "real \<Rightarrow> mat3 \<Rightarrow> mat3" where
  "scaleR_mat3 s m = Mat3 (s *\<^sub>R col0 m) (s *\<^sub>R col1 m) (s *\<^sub>R col2 m)"

instance ..

end

text \<open>
  \<^verbatim>\<open>v[j]\<close> and \<^verbatim>\<open>m[i]\<close> for indices below 3, and \<^verbatim>\<open>m[i][j]\<close>, the entry in
  column \<open>i\<close> and row \<open>j\<close>. In the usual notation of linear algebra that entry
  is \<open>entry m j i\<close>, row index first.
\<close>

definition comp3 :: "vec3 \<Rightarrow> nat \<Rightarrow> real" where
  "comp3 v j = (if j = 0 then vx v else if j = 1 then vy v else vz v)"

definition column :: "mat3 \<Rightarrow> nat \<Rightarrow> vec3" where
  "column m i = (if i = 0 then col0 m else if i = 1 then col1 m else col2 m)"

definition el :: "mat3 \<Rightarrow> nat \<Rightarrow> nat \<Rightarrow> real" where
  "el m i j = comp3 (column m i) j"

definition entry :: "mat3 \<Rightarrow> nat \<Rightarrow> nat \<Rightarrow> real" where
  "entry m r c = el m c r"

text \<open>\<^verbatim>\<open>v * s\<close> with a scalar on the right.\<close>

definition vscale :: "vec3 \<Rightarrow> real \<Rightarrow> vec3" where
  "vscale a s = Vec3 (vx a * s) (vy a * s) (vz a * s)"

section \<open>Device memory\<close>

text \<open>
  A device array is a list. A read or a write outside the array is undefined behaviour
  in the source; here it makes the computation return \<open>None\<close>.
\<close>

definition rd :: "'a list \<Rightarrow> nat \<Rightarrow> 'a option" where
  "rd xs i = (if i < length xs then Some (xs ! i) else None)"

definition wr :: "'a list \<Rightarrow> nat \<Rightarrow> 'a \<Rightarrow> 'a list option" where
  "wr xs i v = (if i < length xs then Some (xs[i := v]) else None)"

text \<open>
  A pointer into an array is the array and an offset. \<open>rd_block xs base n\<close> is the
  view \<^verbatim>\<open>p = xs + base\<close> through which \<^verbatim>\<open>p[0]\<close>, ..., \<^verbatim>\<open>p[n - 1]\<close> are read;
  \<open>wr_block xs base vs\<close> performs the writes \<^verbatim>\<open>p[0] = vs[0]\<close>, \<^verbatim>\<open>p[1] = vs[1]\<close>, ...
  one after the other.
\<close>

definition rd_block :: "'a list \<Rightarrow> nat \<Rightarrow> nat \<Rightarrow> (nat \<Rightarrow> 'a) option" where
  "rd_block xs base n = (if base + n \<le> length xs then Some (\<lambda>k. xs ! (base + k)) else None)"

fun wr_block :: "'a list \<Rightarrow> nat \<Rightarrow> 'a list \<Rightarrow> 'a list option" where
  "wr_block xs i [] = Some xs"
| "wr_block xs i (v # vs) = do { xs \<leftarrow> wr xs i v; wr_block xs (Suc i) vs }"

section \<open>Kernel launches\<close>

text \<open>
  \<^verbatim>\<open>kernel <<<grid, block>>> (...)\<close> starts \<open>grid * block\<close> workers, worker \<open>idx\<close> with
  \<^verbatim>\<open>thread_rank() = idx\<close>. The workers of one launch touch disjoint output slots, so
  they are run here one after the other, in the order of their ranks. A host function
  returns the list of launches it issued, each with its grid and block size, and the
  device memory after them. The number of primitives \<open>P\<close> is a count: it is a natural
  number here, as are the ranks and the coefficient stride, and the sum \<^verbatim>\<open>P + 255\<close> of
  the grid size is taken without overflow.
\<close>

definition launch :: "nat \<Rightarrow> nat \<Rightarrow> (nat \<Rightarrow> 's \<Rightarrow> 's option) \<Rightarrow> 's \<Rightarrow> 's option" where
  "launch grid block worker s = fold (\<lambda>idx r. r \<bind> worker idx) [0..<grid * block] (Some s)"

datatype 's run = Run (launches: "(nat \<times> nat) list") (memory: "'s option")

section \<open>Covariance builder\<close>

definition scale_vector_to_matrix :: "vec3 \<Rightarrow> mat3" where
  "scale_vector_to_matrix scale =
     (let S = mat3_diag 1;
          S = Mat3 (Vec3 (vx scale) (vy (col0 S)) (vz (col0 S))) (col1 S) (col2 S);
          S = Mat3 (col0 S) (Vec3 (vx (col1 S)) (vy scale) (vz (col1 S))) (col2 S);
          S = Mat3 (col0 S) (col1 S) (Vec3 (vx (col2 S)) (vy (col2 S)) (vz scale))
      in S)"

text \<open>The quaternion arrives as a \<^verbatim>\<open>glm::vec4\<close>, whose fields are named x, y, z, w.\<close>

definition unit_quaternion_to_rotmatrix :: "vec4 \<Rightarrow> mat3" where
  "unit_quaternion_to_rotmatrix uquat =
     (let r = qx uquat; x = qy uquat; y = qz uquat; z = qw uquat
      in mat3_of
        (1 - 2 * (y * y + z * z))
        (2 * (x * y - r * z))
        (2 * (x * z + r * y))
        (2 * (x * y + r * z))
        (1 - 2 * (x * x + z * z))
        (2 * (y * z - r * x))
        (2 * (x * z - r * y))
        (2 * (y * z + r * x))
        (1 - 2 * (x * x + y * y)))"

text \<open>
  \<^verbatim>\<open>compute_cov3d_forward(scale, quat, cov3D)\<close>; the pointer \<^verbatim>\<open>cov3D\<close> is the array
  \<open>cov3Ds\<close> with the offset \<open>off\<close>.
\<close>

definition compute_cov3d_forward :: "vec3 \<Rightarrow> vec4 \<Rightarrow> real list \<Rightarrow> nat \<Rightarrow> real list option" where
  "compute_cov3d_forward scale quat cov3Ds off =
     (let S = scale_vector_to_matrix scale;
          R = unit_quaternion_to_rotmatrix quat;
          M = S * R;
          Sigma = transpose_mat3 M * M
      in wr_block cov3Ds off
           [el Sigma 0 0, el Sigma 0 1, el Sigma 0 2, el Sigma 1 1, el Sigma 1 2, el Sigma 2 2])"

text \<open>
  \<^verbatim>\<open>compute_cov3_backward\<close>; \<open>dL_dcov3D\<close> is the view of the six gradient entries of the
  primitive, and the two reference parameters are returned.
\<close>

definition compute_cov3_backward :: "vec3 \<Rightarrow> vec4 \<Rightarrow> (nat \<Rightarrow> real) \<Rightarrow> vec3 \<times> vec4" where
  "compute_cov3_backward scale quat dL_dcov3D =
     (let S = scale_vector_to_matrix scale;
          R = unit_quaternion_to_rotmatrix quat;
          M = S * R;
          dL_dSigma = mat3_of
            (dL_dcov3D 0) (0.5 * dL_dcov3D 1) (0.5 * dL_dcov3D 2)
            (0.5 * dL_dcov3D 1) (dL_dcov3D 3) (0.5 * dL_dcov3D 4)
            (0.5 * dL_dcov3D 2) (0.5 * dL_dcov3D 4) (dL_dcov3D 5);
          dL_dM = (2 *\<^sub>R M) * dL_dSigma;
          Rt = transpose_mat3 R;
          dL_dMt = transpose_mat3 dL_dM;
          dL_dscale_x = dot (column Rt 0) (column dL_dMt 0);
          dL_dscale_y = dot (column Rt 1) (column dL_dMt 1);
          dL_dscale_z = dot (column Rt 2) (column dL_dMt 2);
          dL_dMt = Mat3 (vscale (col0 dL_dMt) (vx scale)) (col1 dL_dMt) (col2 dL_dMt);
          dL_dMt = Mat3 (col0 dL_dMt) (vscale (col1 dL_dMt) (vy scale)) (col2 dL_dMt);
          dL_dMt = Mat3 (col0 dL_dMt) (col1 dL_dMt) (vscale (col2 dL_dMt) (vz scale));
          r = qx quat; x = qy quat; y = qz quat; z = qw quat;
          dL_dquat_x = 2 * z * (el dL_dMt 0 1 - el dL_dMt 1 0) +
                       2 * y * (el dL_dMt 2 0 - el dL_dMt 0 2) +
                       2 * x * (el dL_dMt 1 2 - el dL_dMt 2 1);
          dL_dquat_y = 2 * y * (el dL_dMt 1 0 + el dL_dMt 0 1) +
                       2 * z * (el dL_dMt 2 0 + el dL_dMt 0 2) +
                       2 * r * (el dL_dMt 1 2 - el dL_dMt 2 1) -
                       4 * x * (el dL_dMt 2 2 + el dL_dMt 1 1);
          dL_dquat_z = 2 * x * (el dL_dMt 1 0 + el dL_dMt 0 1) +
                       2 * r * (el dL_dMt 2 0 - el dL_dMt 0 2) +
                       2 * z * (el dL_dMt 1 2 + el dL_dMt 2 1) -
                       4 * y * (el dL_dMt 2 2 + el dL_dMt 0 0);
          dL_dquat_w = 2 * r * (el dL_dMt 0 1 - el dL_dMt 1 0) +
                       2 * x * (el dL_dMt 2 0 + el dL_dMt 0 2) +
                       2 * y * (el dL_dMt 1 2 + el dL_dMt 2 1) -
                       4 * z * (el dL_dMt 1 1 + el dL_dMt 0 0)
      in (Vec3 dL_dscale_x dL_dscale_y dL_dscale_z,
          Vec4 dL_dquat_x dL_dquat_y dL_dquat_z dL_dquat_w))"

text \<open>
  The two kernels, as the function of one worker. \<open>P\<close> is the number of primitives,
  a count, and \<open>idx\<close> the rank of the worker. The test \<^verbatim>\<open>idx >= P || !visible[idx]\<close>
  reads the mask only when the first operand is false.
\<close>

definition computeCov3DForwardCUDAKernel ::
  "nat \<Rightarrow> vec3 list \<Rightarrow> vec4 list \<Rightarrow> bool list \<Rightarrow> nat \<Rightarrow> real list \<Rightarrow> real list option" where
  "computeCov3DForwardCUDAKernel P scales uquats visible idx cov3Ds =
     (if idx \<ge> P then Some cov3Ds
      else do {
        v \<leftarrow> rd visible idx;
        if \<not> v then Some cov3Ds
        else do {
          scale \<leftarrow> rd scales idx;
          quat \<leftarrow> rd uquats idx;
          compute_cov3d_forward scale quat cov3Ds (6 * idx)
        }
      })"

definition computeCov3DBackwardCUDAKernel ::
  "nat \<Rightarrow> vec3 list \<Rightarrow> vec4 list \<Rightarrow> bool list \<Rightarrow> real list \<Rightarrow> nat \<Rightarrow>
   vec3 list \<times> vec4 list \<Rightarrow> (vec3 list \<times> vec4 list) option" where
  "computeCov3DBackwardCUDAKernel P scales uquats visible dL_dcov3Ds idx out =
     (if idx \<ge> P then Some out
      else do {
        v \<leftarrow> rd visible idx;
        if \<not> v then Some out
        else do {
          scale \<leftarrow> rd scales idx;
          quat \<leftarrow> rd uquats idx;
          dL_dcov3D \<leftarrow> rd_block dL_dcov3Ds (6 * idx) 6;
          let (dL_dscale, dL_dquat) = compute_cov3_backward scale quat dL_dcov3D;
          dL_dscales \<leftarrow> wr (fst out) idx dL_dscale;
          dL_duquats \<leftarrow> wr (snd out) idx dL_dquat;
          Some (dL_dscales, dL_duquats)
        }
      })"

text \<open>
  The host functions. A tensor of shape \<open>(P, 3)\<close> is a list of \<open>P\<close> vectors, so
  \<^verbatim>\<open>scales.size(0)\<close> is the length of the list; \<^verbatim>\<open>torch::zeros\<close> gives the new output
  tensors. The checks of \<^verbatim>\<open>CHECK_INPUT\<close> (device and layout of a tensor) have no
  counterpart here.
\<close>

definition computeCov3DForward :: "vec3 list \<Rightarrow> vec4 list \<Rightarrow> bool list \<Rightarrow> real list run" where
  "computeCov3DForward scales uquats visible =
     (let P = length scales;
          cov3Ds = replicate (P * 6) 0
      in if P \<noteq> 0
         then Run [((P + 255) div 256, 256)]
                (launch ((P + 255) div 256) 256
                   (computeCov3DForwardCUDAKernel P scales uquats visible) cov3Ds)
         else Run [] (Some cov3Ds))"

definition computeCov3DBackward ::
  "vec3 list \<Rightarrow> vec4 list \<Rightarrow> bool list \<Rightarrow> real list \<Rightarrow> (vec3 list \<times> vec4 list) run" where
  "computeCov3DBackward scales uquats visible dL_dcov3Ds =
     (let P = length scales;
          dL_dscales = replicate P (Vec3 0 0 0);
          dL_duquats = replicate P (Vec4 0 0 0 0)
      in if P \<noteq> 0
         then Run [((P + 255) div 256, 256)]
                (launch ((P + 255) div 256) 256
                   (computeCov3DBackwardCUDAKernel P scales uquats visible dL_dcov3Ds)
                   (dL_dscales, dL_duquats))
         else Run [] (Some (dL_dscales, dL_duquats)))"

section \<open>Spherical-harmonics colour evaluator\<close>

text \<open>
  The band constants. The source writes them as \<^verbatim>\<open>float\<close> literals; here they are the
  decimal numbers as written.
\<close>

definition SH_C0 :: real where
  "SH_C0 = 0.28209479177387814"

definition SH_C1 :: real where
  "SH_C1 = 0.4886025119029199"

definition SH_C2 :: "real list" where
  "SH_C2 = [
     1.0925484305920792,
     - 1.0925484305920792,
     0.31539156525252005,
     - 1.0925484305920792,
     0.5462742152960396]"

definition SH_C3 :: "real list" where
  "SH_C3 = [
     - 0.5900435899266435,
     2.890611442640554,
     - 0.4570457994644658,
     0.3731763325901154,
     - 0.4570457994644658,
     1.445305721320277,
     - 0.5900435899266435]"

text \<open>
  The number of coefficients \<^verbatim>\<open>sh[0]\<close>, \<^verbatim>\<open>sh[1]\<close>, ... that the nested tests
  \<^verbatim>\<open>deg > 0\<close>, \<^verbatim>\<open>deg > 1\<close>, \<^verbatim>\<open>deg > 2\<close> of both kernels reach.
\<close>

definition sh_used :: "int \<Rightarrow> nat" where
  "sh_used deg = (if deg > 0 then (if deg > 1 then (if deg > 2 then 16 else 9) else 4) else 1)"

text \<open>
  The forward kernel from \<^verbatim>\<open>glm::vec3 result = SH_C0 * sh[0]\<close> to \<^verbatim>\<open>result += 0.5f\<close>:
  the colour before clamping. \<open>sh\<close> is the view \<^verbatim>\<open>shs + idx * max_coeffs\<close>.
\<close>

definition sh_forward_result :: "int \<Rightarrow> vec3 \<Rightarrow> (nat \<Rightarrow> vec3) \<Rightarrow> vec3" where
  "sh_forward_result deg dir sh =
     (let result = SH_C0 *\<^sub>R sh 0;
          result =
            (if deg > 0 then
               (let x = vx dir; y = vy dir; z = vz dir;
                    result = result - (SH_C1 * y) *\<^sub>R sh 1 + (SH_C1 * z) *\<^sub>R sh 2
                               - (SH_C1 * x) *\<^sub>R sh 3
                in if deg > 1 then
                     (let xx = x * x; yy = y * y; zz = z * z;
                          xy = x * y; yz = y * z; xz = x * z;
                          result = result +
                            (SH_C2 ! 0 * xy) *\<^sub>R sh 4 +
                            (SH_C2 ! 1 * yz) *\<^sub>R sh 5 +
                            (SH_C2 ! 2 * (2 * zz - xx - yy)) *\<^sub>R sh 6 +
                            (SH_C2 ! 3 * xz) *\<^sub>R sh 7 +
                            (SH_C2 ! 4 * (xx - yy)) *\<^sub>R sh 8
                      in if deg > 2 then
                           result +
                             (SH_C3 ! 0 * y * (3 * xx - yy)) *\<^sub>R sh 9 +
                             (SH_C3 ! 1 * xy * z) *\<^sub>R sh 10 +
                             (SH_C3 ! 2 * y * (4 * zz - xx - yy)) *\<^sub>R sh 11 +
                             (SH_C3 ! 3 * z * (2 * zz - 3 * xx - 3 * yy)) *\<^sub>R sh 12 +
                             (SH_C3 ! 4 * x * (4 * zz - xx - yy)) *\<^sub>R sh 13 +
                             (SH_C3 ! 5 * z * (xx - yy)) *\<^sub>R sh 14 +
                             (SH_C3 ! 6 * x * (xx - 3 * yy)) *\<^sub>R sh 15
                         else result)
                   else result)
             else result)
      in vadds result 0.5)"

definition ComputeColorFromSHForwardCUDAKernel ::
  "nat \<Rightarrow> int \<Rightarrow> nat \<Rightarrow> vec3 list \<Rightarrow> vec3 list \<Rightarrow> bool list \<Rightarrow> nat \<Rightarrow>
   vec3 list \<times> bool list \<Rightarrow> (vec3 list \<times> bool list) option" where
  "ComputeColorFromSHForwardCUDAKernel P deg max_coeffs dirs shs visibility_filter idx out =
     (if idx \<ge> P then Some out
      else do {
        v \<leftarrow> rd visibility_filter idx;
        if \<not> v then Some out
        else do {
          dir \<leftarrow> rd dirs idx;
          sh \<leftarrow> rd_block shs (idx * max_coeffs) (sh_used deg);
          let result = sh_forward_result deg dir sh;
          clamped \<leftarrow> wr (snd out) (3 * idx + 0) (vx result < 0);
          clamped \<leftarrow> wr clamped (3 * idx + 1) (vy result < 0);
          clamped \<leftarrow> wr clamped (3 * idx + 2) (vz result < 0);
          colors \<leftarrow> wr (fst out) idx (vmax result 0);
          Some (colors, clamped)
        }
      })"

text \<open>
  The backward kernel, band by band. The state of the bands is the list of the values
  written so far to \<^verbatim>\<open>dL_dsh[0]\<close>, \<^verbatim>\<open>dL_dsh[1]\<close>, ... and the three accumulators
  \<^verbatim>\<open>dRGBdx\<close>, \<^verbatim>\<open>dRGBdy\<close>, \<^verbatim>\<open>dRGBdz\<close>.
\<close>

type_synonym sh_grad = "vec3 list \<times> vec3 \<times> vec3 \<times> vec3"

definition sh_backward_band1 :: "vec3 \<Rightarrow> (nat \<Rightarrow> vec3) \<Rightarrow> vec3 \<Rightarrow> sh_grad \<Rightarrow> sh_grad" where
  "sh_backward_band1 dir sh dL_dcolor st =
     (case st of (dL_dsh, dRGBdx, dRGBdy, dRGBdz) \<Rightarrow>
      let x = vx dir; y = vy dir; z = vz dir;
          dRGBdsh1 = - SH_C1 * y;
          dRGBdsh2 = SH_C1 * z;
          dRGBdsh3 = - SH_C1 * x;
          dL_dsh = dL_dsh @
            [dRGBdsh1 *\<^sub>R dL_dcolor, dRGBdsh2 *\<^sub>R dL_dcolor, dRGBdsh3 *\<^sub>R dL_dcolor];
          dRGBdx = (- SH_C1) *\<^sub>R sh 3;
          dRGBdy = (- SH_C1) *\<^sub>R sh 1;
          dRGBdz = SH_C1 *\<^sub>R sh 2
      in (dL_dsh, dRGBdx, dRGBdy, dRGBdz))"

definition sh_backward_band2 :: "vec3 \<Rightarrow> (nat \<Rightarrow> vec3) \<Rightarrow> vec3 \<Rightarrow> sh_grad \<Rightarrow> sh_grad" where
  "sh_backward_band2 dir sh dL_dcolor st =
     (case st of (dL_dsh, dRGBdx, dRGBdy, dRGBdz) \<Rightarrow>
      let x = vx dir; y = vy dir; z = vz dir;
          xx = x * x; yy = y * y; zz = z * z;
          xy = x * y; yz = y * z; xz = x * z;
          dRGBdsh4 = SH_C2 ! 0 * xy;
          dRGBdsh5 = SH_C2 ! 1 * yz;
          dRGBdsh6 = SH_C2 ! 2 * (2 * zz - xx - yy);
          dRGBdsh7 = SH_C2 ! 3 * xz;
          dRGBdsh8 = SH_C2 ! 4 * (xx - yy);
          dL_dsh = dL_dsh @
            [dRGBdsh4 *\<^sub>R dL_dcolor, dRGBdsh5 *\<^sub>R dL_dcolor, dRGBdsh6 *\<^sub>R dL_dcolor,
             dRGBdsh7 *\<^sub>R dL_dcolor, dRGBdsh8 *\<^sub>R dL_dcolor];
          dRGBdx = dRGBdx +
            ((SH_C2 ! 0 * y) *\<^sub>R sh 4 + (SH_C2 ! 2 * 2 * - x) *\<^sub>R sh 6 +
             (SH_C2 ! 3 * z) *\<^sub>R sh 7 + (SH_C2 ! 4 * 2 * x) *\<^sub>R sh 8);
          dRGBdy = dRGBdy +
            ((SH_C2 ! 0 * x) *\<^sub>R sh 4 + (SH_C2 ! 1 * z) *\<^sub>R sh 5 +
             (SH_C2 ! 2 * 2 * - y) *\<^sub>R sh 6 + (SH_C2 ! 4 * 2 * - y) *\<^sub>R sh 8);
          dRGBdz = dRGBdz +
            ((SH_C2 ! 1 * y) *\<^sub>R sh 5 + (SH_C2 ! 2 * 2 * 2 * z) *\<^sub>R sh 6 +
             (SH_C2 ! 3 * x) *\<^sub>R sh 7)
      in (dL_dsh, dRGBdx, dRGBdy, dRGBdz))"

definition sh_backward_band3 :: "vec3 \<Rightarrow> (nat \<Rightarrow> vec3) \<Rightarrow> vec3 \<Rightarrow> sh_grad \<Rightarrow> sh_grad" where
  "sh_backward_band3 dir sh dL_dcolor st =
     (case st of (dL_dsh, dRGBdx, dRGBdy, dRGBdz) \<Rightarrow>
      let x = vx dir; y = vy dir; z = vz dir;
          xx = x * x; yy = y * y; zz = z * z;
          xy = x * y; yz = y * z; xz = x * z;
          dRGBdsh9 = SH_C3 ! 0 * y * (3 * xx - yy);
          dRGBdsh10 = SH_C3 ! 1 * xy * z;
          dRGBdsh11 = SH_C3 ! 2 * y * (4 * zz - xx - yy);
          dRGBdsh12 = SH_C3 ! 3 * z * (2 * zz - 3 * xx - 3 * yy);
          dRGBdsh13 = SH_C3 ! 4 * x * (4 * zz - xx - yy);
          dRGBdsh14 = SH_C3 ! 5 * z * (xx - yy);
          dRGBdsh15 = SH_C3 ! 6 * x * (xx - 3 * yy);
          dL_dsh = dL_dsh @
            [dRGBdsh9 *\<^sub>R dL_dcolor, dRGBdsh10 *\<^sub>R dL_dcolor, dRGBdsh11 *\<^sub>R dL_dcolor,
             dRGBdsh12 *\<^sub>R dL_dcolor, dRGBdsh13 *\<^sub>R dL_dcolor, dRGBdsh14 *\<^sub>R dL_dcolor,
             dRGBdsh15 *\<^sub>R dL_dcolor];
          dRGBdx = dRGBdx + (
            vscale (vscale (vscale (SH_C3 ! 0 *\<^sub>R sh 9) 3) 2) xy +
            vscale (SH_C3 ! 1 *\<^sub>R sh 10) yz +
            vscale (vscale (SH_C3 ! 2 *\<^sub>R sh 11) (- 2)) xy +
            vscale (vscale (vscale (SH_C3 ! 3 *\<^sub>R sh 12) (- 3)) 2) xz +
            vscale (SH_C3 ! 4 *\<^sub>R sh 13) (- 3 * xx + 4 * zz - yy) +
            vscale (vscale (SH_C3 ! 5 *\<^sub>R sh 14) 2) xz +
            vscale (vscale (SH_C3 ! 6 *\<^sub>R sh 15) 3) (xx - yy));
          dRGBdy = dRGBdy + (
            vscale (vscale (SH_C3 ! 0 *\<^sub>R sh 9) 3) (xx - yy) +
            vscale (SH_C3 ! 1 *\<^sub>R sh 10) xz +
            vscale (SH_C3 ! 2 *\<^sub>R sh 11) (- 3 * yy + 4 * zz - xx) +
            vscale (vscale (vscale (SH_C3 ! 3 *\<^sub>R sh 12) (- 3)) 2) yz +
            vscale (vscale (SH_C3 ! 4 *\<^sub>R sh 13) (- 2)) xy +
            vscale (vscale (SH_C3 ! 5 *\<^sub>R sh 14) (- 2)) yz +
            vscale (vscale (vscale (SH_C3 ! 6 *\<^sub>R sh 15) (- 3)) 2) xy);
          dRGBdz = dRGBdz + (
            vscale (SH_C3 ! 1 *\<^sub>R sh 10) xy +
            vscale (vscale (vscale (SH_C3 ! 2 *\<^sub>R sh 11) 4) 2) yz +
            vscale (vscale (SH_C3 ! 3 *\<^sub>R sh 12) 3) (2 * zz - xx - yy) +
            vscale (vscale (vscale (SH_C3 ! 4 *\<^sub>R sh 13) 4) 2) xz +
            vscale (SH_C3 ! 5 *\<^sub>R sh 14) (xx - yy))
      in (dL_dsh, dRGBdx, dRGBdy, dRGBdz))"

text \<open>
  The body of the backward kernel after the mask has been applied to the colour
  gradient: the values written to \<^verbatim>\<open>dL_dsh[0]\<close>, \<^verbatim>\<open>dL_dsh[1]\<close>, ... in the order of
  the writes, and the value written to \<^verbatim>\<open>dL_ddirs[idx]\<close>.
\<close>

definition sh_backward :: "int \<Rightarrow> vec3 \<Rightarrow> (nat \<Rightarrow> vec3) \<Rightarrow> vec3 \<Rightarrow> vec3 list \<times> vec3" where
  "sh_backward deg dir sh dL_dcolor =
     (let dRGBdsh0 = SH_C0;
          st = ([dRGBdsh0 *\<^sub>R dL_dcolor], Vec3 0 0 0, Vec3 0 0 0, Vec3 0 0 0);
          st =
            (if deg > 0 then
               (let st = sh_backward_band1 dir sh dL_dcolor st
                in if deg > 1 then
                     (let st = sh_backward_band2 dir sh dL_dcolor st
                      in if deg > 2 then sh_backward_band3 dir sh dL_dcolor st else st)
                   else st)
             else st)
      in case st of (dL_dsh, dRGBdx, dRGBdy, dRGBdz) \<Rightarrow>
           (dL_dsh,
            Vec3 (dot dRGBdx dL_dcolor) (dot dRGBdy dL_dcolor) (dot dRGBdz dL_dcolor)))"

text \<open>
  The backward kernel reads \<^verbatim>\<open>sh[1]\<close>, ..., and only when \<^verbatim>\<open>deg > 0\<close>; it never reads
  \<^verbatim>\<open>sh[0]\<close>.
\<close>

definition ComputeColorFromSHBackwardCUDAKernel ::
  "nat \<Rightarrow> int \<Rightarrow> nat \<Rightarrow> vec3 list \<Rightarrow> vec3 list \<Rightarrow> bool list \<Rightarrow> bool list \<Rightarrow> vec3 list \<Rightarrow>
   nat \<Rightarrow> vec3 list \<times> vec3 list \<Rightarrow> (vec3 list \<times> vec3 list) option" where
  "ComputeColorFromSHBackwardCUDAKernel P deg max_coeffs dirs shs visibility_filter clamped
     dL_dcolors idx out =
     (if idx \<ge> P then Some out
      else do {
        v \<leftarrow> rd visibility_filter idx;
        if \<not> v then Some out
        else do {
          dir \<leftarrow> rd dirs idx;
          sh \<leftarrow> rd_block shs (idx * max_coeffs) (if deg > 0 then sh_used deg else 0);
          dL_dcolor \<leftarrow> rd dL_dcolors idx;
          c0 \<leftarrow> rd clamped (3 * idx + 0);
          c1 \<leftarrow> rd clamped (3 * idx + 1);
          c2 \<leftarrow> rd clamped (3 * idx + 2);
          let dL_dcolor = Vec3
                (vx dL_dcolor * (if c0 then 0 else 1))
                (vy dL_dcolor * (if c1 then 0 else 1))
                (vz dL_dcolor * (if c2 then 0 else 1));
          let (dL_dsh, dL_ddir) = sh_backward deg dir sh dL_dcolor;
          dL_dshs \<leftarrow> wr_block (snd out) (idx * max_coeffs) dL_dsh;
          dL_ddirs \<leftarrow> wr (fst out) idx dL_ddir;
          Some (dL_ddirs, dL_dshs)
        }
      })"

text \<open>
  The two launchers. The \<^verbatim>\<open>float\<close> buffers are given as the arrays of \<^verbatim>\<open>glm::vec3\<close>
  to which the launchers cast them.
\<close>

definition ComputeColorFromSHForwardCUDA ::
  "nat \<Rightarrow> int \<Rightarrow> nat \<Rightarrow> vec3 list \<Rightarrow> vec3 list \<Rightarrow> bool list \<Rightarrow>
   vec3 list \<times> bool list \<Rightarrow> (vec3 list \<times> bool list) run" where
  "ComputeColorFromSHForwardCUDA P deg max_coeffs dirs shs visibility_filter out =
     Run [((P + 255) div 256, 256)]
       (launch ((P + 255) div 256) 256
          (ComputeColorFromSHForwardCUDAKernel P deg max_coeffs dirs shs visibility_filter) out)"

definition ComputeColorFromSHBackwardCUDA ::
  "nat \<Rightarrow> int \<Rightarrow> nat \<Rightarrow> vec3 list \<Rightarrow> vec3 list \<Rightarrow> bool list \<Rightarrow> bool list \<Rightarrow> vec3 list \<Rightarrow>
   vec3 list \<times> vec3 list \<Rightarrow> (vec3 list \<times> vec3 list) run" where
  "ComputeColorFromSHBackwardCUDA P deg max_coeffs dirs shs visibility_filter clamped
     dL_dcolors out =
     Run [((P + 255) div 256, 256)]
       (launch ((P + 255) div 256) 256
          (ComputeColorFromSHBackwardCUDAKernel P deg max_coeffs dirs shs visibility_filter
             clamped dL_dcolors) out)"

section \<open>Notions of the specification\<close>

text \<open>
  The sixteen real spherical-harmonics basis polynomials of bands 0 to 3 at a direction,
  with the band constants of the source, in the order of the coefficient block: one of
  degree 0, three linear, five quadratic and seven cubic ones.
\<close>

definition sh_basis :: "vec3 \<Rightarrow> real list" where
  "sh_basis dir =
     (let x = vx dir; y = vy dir; z = vz dir
      in [SH_C0,
          - SH_C1 * y,
          SH_C1 * z,
          - SH_C1 * x,
          SH_C2 ! 0 * (x * y),
          SH_C2 ! 1 * (y * z),
          SH_C2 ! 2 * (2 * (z * z) - x * x - y * y),
          SH_C2 ! 3 * (x * z),
          SH_C2 ! 4 * (x * x - y * y),
          SH_C3 ! 0 * y * (3 * (x * x) - y * y),
          SH_C3 ! 1 * (x * y) * z,
          SH_C3 ! 2 * y * (4 * (z * z) - x * x - y * y),
          SH_C3 ! 3 * z * (2 * (z * z) - 3 * (x * x) - 3 * (y * y)),
          SH_C3 ! 4 * x * (4 * (z * z) - x * x - y * y),
          SH_C3 ! 5 * z * (x * x - y * y),
          SH_C3 ! 6 * x * (x * x - 3 * (y * y))])"

text \<open>The number \<open>(deg + 1)\<^sup>2\<close> of coefficients of the bands up to \<open>deg\<close>.\<close>

definition sh_terms :: "int \<Rightarrow> nat" where
  "sh_terms deg = nat ((deg + 1) * (deg + 1))"

text \<open>The expansion truncated after band \<open>deg\<close>.\<close>

definition sh_expansion :: "int \<Rightarrow> vec3 \<Rightarrow> (nat \<Rightarrow> vec3) \<Rightarrow> vec3" where
  "sh_expansion deg dir sh = (\<Sum>k\<leftarrow>[0..<sh_terms deg]. (sh_basis dir ! k) *\<^sub>R sh k)"

text \<open>The factor that the clamp mask puts on a channel of the colour gradient.\<close>

definition clamp_factor :: "bool \<Rightarrow> real" where
  "clamp_factor c = (if c then 0 else 1)"

text \<open>
  A matrix written down row by row, the diagonal matrix of a vector, and the rotation
  matrix of a quaternion \<open>(w, x, y, z)\<close> with the scalar part first, by the standard
  formula: its first row is \<open>1 - 2(y\<^sup>2 + z\<^sup>2)\<close>, \<open>2(xy - wz)\<close>, \<open>2(xz + wy)\<close>.
\<close>

definition mat3_rows :: "real \<Rightarrow> real \<Rightarrow> real \<Rightarrow> real \<Rightarrow> real \<Rightarrow> real \<Rightarrow> real \<Rightarrow> real \<Rightarrow> real \<Rightarrow> mat3" where
  "mat3_rows a00 a01 a02 a10 a11 a12 a20 a21 a22 =
     Mat3 (Vec3 a00 a10 a20) (Vec3 a01 a11 a21) (Vec3 a02 a12 a22)"

definition diag_matrix :: "vec3 \<Rightarrow> mat3" where
  "diag_matrix s = mat3_rows (vx s) 0 0 0 (vy s) 0 0 0 (vz s)"

definition rotation_matrix :: "vec4 \<Rightarrow> mat3" where
  "rotation_matrix q =
     (let w = qx q; x = qy q; y = qz q; z = qw q
      in mat3_rows
        (1 - 2 * (y * y + z * z)) (2 * (x * y - w * z)) (2 * (x * z + w * y))
        (2 * (x * y + w * z)) (1 - 2 * (x * x + z * z)) (2 * (y * z - w * x))
        (2 * (x * z - w * y)) (2 * (y * z + w * x)) (1 - 2 * (x * x + y * y)))"

text \<open>The upper triangle of a matrix, row by row: the entries 00, 01, 02, 11, 12, 22.\<close>

definition upper_triangle :: "mat3 \<Rightarrow> real list" where
  "upper_triangle m = [entry m 0 0, entry m 0 1, entry m 0 2, entry m 1 1, entry m 1 2, entry m 2 2]"




text \<open>
  The loss of the colour evaluator for a gradient \<open>g\<close> of the colour: the forward
  value before clamping, channel by channel, weighted with \<open>g\<close>.
\<close>

definition sh_loss :: "vec3 \<Rightarrow> int \<Rightarrow> vec3 \<Rightarrow> (nat \<Rightarrow> vec3) \<Rightarrow> real" where
  "sh_loss g deg dir sh = dot (sh_forward_result deg dir sh) g"



text \<open>
  The state of the output of the two host functions of the covariance builder while the
  workers run: the output has its full size and the rows of all invisible primitives
  hold zeros.
\<close>

definition cov_rows_zero :: "nat \<Rightarrow> bool list \<Rightarrow> real list \<Rightarrow> bool" where
  "cov_rows_zero P visible cov \<longleftrightarrow>
     length cov = 6 * P \<and> (\<forall>i<P. \<not> visible ! i \<longrightarrow> (\<forall>j<6. cov ! (6 * i + j) = 0))"

definition grad_rows_zero :: "nat \<Rightarrow> bool list \<Rightarrow> vec3 list \<times> vec4 list \<Rightarrow> bool" where
  "grad_rows_zero P visible out \<longleftrightarrow>
     length (fst out) = P \<and> length (snd out) = P \<and>
     (\<forall>i<P. \<not> visible ! i \<longrightarrow> fst out ! i = Vec3 0 0 0 \<and> snd out ! i = Vec4 0 0 0 0)"

section \<open>Basic facts\<close>

lemma vec3_sel_simps [simp]:
  "vx (a + b) = vx a + vx b" "vy (a + b) = vy a + vy b" "vz (a + b) = vz a + vz b"
  "vx (a - b) = vx a - vx b" "vy (a - b) = vy a - vy b" "vz (a - b) = vz a - vz b"
  "vx (- a) = - vx a" "vy (- a) = - vy a" "vz (- a) = - vz a"
  "vx (s *\<^sub>R a) = s * vx a" "vy (s *\<^sub>R a) = s * vy a" "vz (s *\<^sub>R a) = s * vz a"
  "vx (0::vec3) = 0" "vy (0::vec3) = 0" "vz (0::vec3) = 0"
  "vx (vscale a s) = vx a * s" "vy (vscale a s) = vy a * s" "vz (vscale a s) = vz a * s"
  "vx (vadds a s) = vx a + s" "vy (vadds a s) = vy a + s" "vz (vadds a s) = vz a + s"
  "vx (vmax a s) = max (vx a) s" "vy (vmax a s) = max (vy a) s" "vz (vmax a s) = max (vz a) s"
  by (simp_all add: plus_vec3_def minus_vec3_def uminus_vec3_def scaleR_vec3_def zero_vec3_def
      vscale_def vadds_def vmax_def)

lemma rd_in [simp]: "i < length xs \<Longrightarrow> rd xs i = Some (xs ! i)"
  by (simp add: rd_def)

lemma rd_out [simp]: "length xs \<le> i \<Longrightarrow> rd xs i = None"
  by (simp add: rd_def)

lemma wr_in [simp]: "i < length xs \<Longrightarrow> wr xs i v = Some (xs[i := v])"
  by (simp add: wr_def)

lemma wr_block_in:
  "base + length vs \<le> length xs \<Longrightarrow>
   wr_block xs base vs = Some (take base xs @ vs @ drop (base + length vs) xs)"
proof (induction vs arbitrary: xs base)
  case Nil
  then show ?case by simp
next
  case (Cons v vs)
  then have "base < length xs" by simp
  moreover have "take (Suc base) (xs[base := v]) = take base xs @ [v]"
    using \<open>base < length xs\<close> by (simp add: take_Suc_conv_app_nth)
  ultimately show ?case using Cons by simp
qed

lemma sh_terms_simps: "sh_terms 0 = 1" "sh_terms 1 = 4" "sh_terms 2 = 9" "sh_terms 3 = 16"
  by (simp_all add: sh_terms_def)

lemma upt_numerals:
  "[0..<1] = [0::nat]" "[0..<4] = [0,1,2,3::nat]" "[0..<9] = [0,1,2,3,4,5,6,7,8::nat]"
  "[0..<16] = [0,1,2,3,4,5,6,7,8,9,10,11,12,13,14,15::nat]"
  "[0..<6] = [0,1,2,3,4,5::nat]"
  by code_simp+

lemma sh_forward_result_expansion:
  assumes "deg \<in> {0, 1, 2, 3}"
  shows "sh_forward_result deg dir sh = vadds (sh_expansion deg dir sh) 0.5"
  using assms
  apply (elim insertE emptyE)
     apply (simp_all only: sh_forward_result_def sh_expansion_def sh_terms_simps upt_numerals sh_basis_def Let_def)
     apply (rule vec3.expand; simp add: algebra_simps)+
  done

lemma rd_block_in [simp]:
  "base + n \<le> length xs \<Longrightarrow> rd_block xs base n = Some (\<lambda>k. xs ! (base + k))"
  by (simp add: rd_block_def)

lemma launch_invariant:
  assumes "I s"
    and "\<And>idx t. idx < grid * block \<Longrightarrow> I t \<Longrightarrow> \<exists>t'. worker idx t = Some t' \<and> I t'"
  shows "\<exists>s'. launch grid block worker s = Some s' \<and> I s'"
proof -
  have "\<exists>s'. fold (\<lambda>idx r. r \<bind> worker idx) xs (Some s) = Some s' \<and> I s'"
    if "set xs \<subseteq> {..<grid * block}" "I s" for xs s
    using that
  proof (induction xs arbitrary: s)
    case Nil
    then show ?case by simp
  next
    case (Cons x xs)
    then obtain t where t: "worker x s = Some t" "I t"
      using assms(2)[of x s] by auto
    with Cons show ?case by simp
  qed
  from this[of "[0..<grid * block]" s] assms(1) show ?thesis
    by (fastforce simp: launch_def)
qed

lemma launch_zero: "launch 0 block worker s = Some s"
  by (simp add: launch_def)

section \<open>Covariance builder, forward\<close>

declare wr_block.simps [simp del]

lemmas mat_defs = mat3_of_def mat3_rows_def mat3_diag_def transpose_mat3_def mat_vec_def
  times_mat3_def scaleR_mat3_def el_def entry_def column_def comp3_def diag_matrix_def

lemma scale_vector_to_matrix_diag: "scale_vector_to_matrix s = diag_matrix s"
  by (simp add: scale_vector_to_matrix_def mat_defs)

lemma unit_quaternion_to_rotmatrix_transposed:
  "unit_quaternion_to_rotmatrix q = transpose_mat3 (rotation_matrix q)"
  by (simp add: unit_quaternion_to_rotmatrix_def rotation_matrix_def mat_defs Let_def)

lemma transpose_transpose [simp]: "transpose_mat3 (transpose_mat3 m) = m"
  by (cases m) (simp add: mat_defs)

lemma gram_symmetric: "entry (transpose_mat3 m * m) i j = el (transpose_mat3 m * m) i j"
  by (simp add: mat_defs algebra_simps)

lemma compute_cov3d_forward_in:
  assumes "off + 6 \<le> length cov3Ds"
  shows "compute_cov3d_forward scale quat cov3Ds off =
    Some (take off cov3Ds @
      upper_triangle (transpose_mat3 (diag_matrix scale * transpose_mat3 (rotation_matrix quat)) *
         (diag_matrix scale * transpose_mat3 (rotation_matrix quat))) @
      drop (off + 6) cov3Ds)"
proof -
  have six: "Suc (Suc (Suc (Suc (Suc (Suc off))))) = off + 6"
    by simp
  show ?thesis
    using assms
    by (simp add: compute_cov3d_forward_def Let_def wr_block_in upper_triangle_def six
        gram_symmetric scale_vector_to_matrix_diag unit_quaternion_to_rotmatrix_transposed)
qed







lemma covariance_rotated_scale:
  "transpose_mat3 (diag_matrix s * transpose_mat3 (rotation_matrix q)) *
     (diag_matrix s * transpose_mat3 (rotation_matrix q)) =
   rotation_matrix q * ((diag_matrix s * diag_matrix s) * transpose_mat3 (rotation_matrix q))"
  by (simp add: rotation_matrix_def mat_defs Let_def algebra_simps)

lemma cov3d_forward_kernel_in:
  assumes "idx < P" "rd visible idx = Some True" "idx < length scales" "idx < length uquats"
    "6 * idx + 6 \<le> length cov3Ds"
  shows "computeCov3DForwardCUDAKernel P scales uquats visible idx cov3Ds =
    compute_cov3d_forward (scales ! idx) (uquats ! idx) cov3Ds (6 * idx)"
  using assms by (simp add: computeCov3DForwardCUDAKernel_def)

text \<open>
  Claim C2, as amended. For a visible primitive \<open>idx < P\<close> the forward kernel writes, at
  the six slots \<open>6 idx\<close>, ..., \<open>6 idx + 5\<close> of the output, the entries 00, 01, 02, 11,
  12, 22 of \<open>\<Sigma> = M\<^sup>T M\<close>, where \<open>M = S R\<^sup>T\<close>, \<open>S\<close> is the diagonal matrix of the scale
  vector and \<open>R\<close> the rotation matrix of the quaternion by the standard scalar-first
  formula; every other slot keeps its value. The matrix that
  \<^verbatim>\<open>unit_quaternion_to_rotmatrix\<close> builds is the transpose of \<open>R\<close>, since the nine
  entries of the standard formula, listed row by row, go to a constructor that fills
  columns (\<open>unit_quaternion_to_rotmatrix_transposed\<close>).
\<close>

theorem cov3d_forward_kernel_writes:
  assumes "idx < P" "rd visible idx = Some True" "idx < length scales" "idx < length uquats"
    "6 * idx + 6 \<le> length cov3Ds"
  shows "computeCov3DForwardCUDAKernel P scales uquats visible idx cov3Ds =
    Some (take (6 * idx) cov3Ds @
      upper_triangle
        (transpose_mat3 (diag_matrix (scales ! idx) * transpose_mat3 (rotation_matrix (uquats ! idx))) *
         (diag_matrix (scales ! idx) * transpose_mat3 (rotation_matrix (uquats ! idx)))) @
      drop (6 * idx + 6) cov3Ds)"
  using assms by (simp add: cov3d_forward_kernel_in compute_cov3d_forward_in)

theorem cov3d_forward_kernel_writes_witness:
  "computeCov3DForwardCUDAKernel 1 [Vec3 1 2 3] [Vec4 (3/5) 0 0 (4/5)] [True] 0 [7, 7, 7, 7, 7, 7, 7] =
   Some [2353 / 625, 504 / 625, 0, 772 / 625, 0, 9, 7]"
  using cov3d_forward_kernel_writes [of 0 1 "[True]" "[Vec3 1 2 3]" "[Vec4 (3/5) 0 0 (4/5)]" "[7, 7, 7, 7, 7, 7, 7]"]
  by (simp add: upper_triangle_def rotation_matrix_def mat_defs Let_def)

text \<open>
  With \<open>M = S R\<close> for the standard rotation matrix \<open>R\<close> itself the statement fails: for
  the scale \<open>(1, 2, 3)\<close> and the unit quaternion \<open>(3/5, 0, 0, 4/5)\<close> the kernel writes
  \<open>504/625\<close> as entry 01, and \<open>(S R)\<^sup>T (S R)\<close> has \<open>- 504/625\<close> there.
\<close>

theorem cov3d_forward_standard_rotation_counterexample:
  "computeCov3DForwardCUDAKernel 1 [Vec3 1 2 3] [Vec4 (3/5) 0 0 (4/5)] [True] 0 [0, 0, 0, 0, 0, 0] \<noteq>
   Some (upper_triangle
     (transpose_mat3 (diag_matrix (Vec3 1 2 3) * rotation_matrix (Vec4 (3/5) 0 0 (4/5))) *
      (diag_matrix (Vec3 1 2 3) * rotation_matrix (Vec4 (3/5) 0 0 (4/5)))))"
  by (simp add: computeCov3DForwardCUDAKernel_def compute_cov3d_forward_def wr_block_in
      scale_vector_to_matrix_def unit_quaternion_to_rotmatrix_def
      upper_triangle_def rotation_matrix_def mat_defs Let_def)



section \<open>Covariance builder, backward\<close>












lemma cov3_backward_kernel_in:
  assumes "idx < P" "rd visible idx = Some True" "idx < length scales" "idx < length uquats"
    "6 * idx + 6 \<le> length dL_dcov3Ds" "idx < length dL_dscales" "idx < length dL_duquats"
  shows "computeCov3DBackwardCUDAKernel P scales uquats visible dL_dcov3Ds idx
           (dL_dscales, dL_duquats) =
         Some (dL_dscales[idx := fst (compute_cov3_backward (scales ! idx) (uquats ! idx)
                   (\<lambda>k. dL_dcov3Ds ! (6 * idx + k)))],
               dL_duquats[idx := snd (compute_cov3_backward (scales ! idx) (uquats ! idx)
                   (\<lambda>k. dL_dcov3Ds ! (6 * idx + k)))])"
  using assms by (simp add: computeCov3DBackwardCUDAKernel_def split_beta)



section \<open>Colour evaluator, forward\<close>

lemma sh_used_terms: "deg \<in> {0, 1, 2, 3} \<Longrightarrow> sh_used deg = sh_terms deg"
  by (auto simp: sh_used_def sh_terms_simps)









section \<open>Colour evaluator, backward\<close>

lemmas sh_backward_defs = sh_backward_def sh_backward_band1_def sh_backward_band2_def
  sh_backward_band3_def

lemma sh_backward_coefficients:
  assumes "deg \<in> {0, 1, 2, 3}"
  shows "fst (sh_backward deg dir sh g) = map (\<lambda>k. (sh_basis dir ! k) *\<^sub>R g) [0..<sh_terms deg]"
  using assms
  apply (elim insertE emptyE)
     apply (simp_all add: sh_backward_defs sh_terms_simps upt_numerals sh_basis_def Let_def)
  done

lemma sh_backward_dir_x:
  assumes "deg \<in> {0, 1, 2, 3}"
  shows "((\<lambda>t. sh_loss g deg (Vec3 t y z) sh) has_real_derivative
           vx (snd (sh_backward deg (Vec3 x y z) sh g))) (at x)"
  using assms
  apply (elim insertE emptyE)
     apply (simp_all add: sh_loss_def sh_forward_result_def sh_backward_defs dot_def Let_def)
     apply ((rule derivative_eq_intros refl | simp)+, simp add: algebra_simps)+
  done

lemma sh_backward_dir_y:
  assumes "deg \<in> {0, 1, 2, 3}"
  shows "((\<lambda>t. sh_loss g deg (Vec3 x t z) sh) has_real_derivative
           vy (snd (sh_backward deg (Vec3 x y z) sh g))) (at y)"
  using assms
  apply (elim insertE emptyE)
     apply (simp_all add: sh_loss_def sh_forward_result_def sh_backward_defs dot_def Let_def)
     apply ((rule derivative_eq_intros refl | simp)+, simp add: algebra_simps)+
  done

lemma sh_backward_dir_z:
  assumes "deg \<in> {0, 1, 2, 3}"
  shows "((\<lambda>t. sh_loss g deg (Vec3 x y t) sh) has_real_derivative
           vz (snd (sh_backward deg (Vec3 x y z) sh g))) (at z)"
  using assms
  apply (elim insertE emptyE)
     apply (simp_all add: sh_loss_def sh_forward_result_def sh_backward_defs dot_def Let_def)
     apply ((rule derivative_eq_intros refl | simp)+, simp add: algebra_simps)+
  done

lemma dot_expansion:
  "dot (vadds (\<Sum>k\<leftarrow>ks. b k *\<^sub>R sh k) c) g =
     (\<Sum>k\<leftarrow>ks. dot (b k *\<^sub>R g) (sh k)) + c * (vx g + vy g + vz g)"
  by (induction ks) (simp_all add: dot_def algebra_simps)

lemma sh_loss_linear:
  assumes "deg \<in> {0, 1, 2, 3}"
  shows "sh_loss g deg dir sh =
     (\<Sum>k\<leftarrow>[0..<sh_terms deg]. dot ((sh_basis dir ! k) *\<^sub>R g) (sh k)) + (vx g + vy g + vz g) / 2"
  using assms by (simp add: sh_loss_def sh_forward_result_expansion sh_expansion_def dot_expansion)

lemma sh_backward_kernel_in:
  assumes "idx < P" "rd visibility_filter idx = Some True" "idx < length dirs"
    "idx * max_coeffs + (if deg > 0 then sh_used deg else 0) \<le> length shs"
    "idx < length dL_dcolors" "3 * idx + 2 < length clamped" "idx < length dL_ddirs"
    "idx * max_coeffs + length (fst (sh_backward deg (dirs ! idx)
        (\<lambda>k. shs ! (idx * max_coeffs + k)) g)) \<le> length dL_dshs"
    "g = Vec3 (vx (dL_dcolors ! idx) * clamp_factor (clamped ! (3 * idx)))
              (vy (dL_dcolors ! idx) * clamp_factor (clamped ! (3 * idx + 1)))
              (vz (dL_dcolors ! idx) * clamp_factor (clamped ! (3 * idx + 2)))"
    "bw = sh_backward deg (dirs ! idx) (\<lambda>k. shs ! (idx * max_coeffs + k)) g"
  shows "ComputeColorFromSHBackwardCUDAKernel P deg max_coeffs dirs shs visibility_filter clamped
           dL_dcolors idx (dL_ddirs, dL_dshs) =
         Some (dL_ddirs[idx := snd bw],
               take (idx * max_coeffs) dL_dshs @ fst bw @
               drop (idx * max_coeffs + length (fst bw)) dL_dshs)"
  using assms
  by (simp add: ComputeColorFromSHBackwardCUDAKernel_def clamp_factor_def split_beta wr_block_in
      Let_def)

text \<open>
  Claim C1. For a visible primitive \<open>idx < P\<close> and a degree in \<open>{0, 1, 2, 3}\<close> the backward
  kernel works with the masked gradient \<open>g\<close>: each channel of the incoming colour gradient
  times 0 where the clamp mask is set and times 1 otherwise. For every \<open>k < (deg + 1)\<^sup>2\<close>
  it writes the value of basis function \<open>k\<close> at the stored direction times \<open>g\<close> as the
  gradient of coefficient \<open>k\<close>; every other slot of the coefficient gradients keeps
  its value, so the bands above \<open>deg\<close> are left unwritten. The values written are the
  partial derivatives of the forward sum: the loss \<open>g \<bullet> (forward value)\<close> is affine in
  the coefficients with exactly these weights. The direction gradient written at slot
  \<open>idx\<close> consists of the exact partial derivatives of that loss, for the forward
  polynomial truncated after band \<open>deg\<close>, with respect to the three components of the
  direction.
\<close>

theorem sh_backward_kernel_gradients:
  assumes "deg \<in> {0, 1, 2, 3}" "idx < P" "rd visibility_filter idx = Some True"
    "idx < length dirs" "idx * max_coeffs + sh_terms deg \<le> length shs"
    "idx < length dL_dcolors" "3 * idx + 2 < length clamped" "idx < length dL_ddirs"
    "idx * max_coeffs + sh_terms deg \<le> length dL_dshs"
  shows "\<exists>dir sh g dd ds.
     dir = dirs ! idx \<and> sh = (\<lambda>k. shs ! (idx * max_coeffs + k)) \<and>
     g = Vec3 (vx (dL_dcolors ! idx) * clamp_factor (clamped ! (3 * idx)))
              (vy (dL_dcolors ! idx) * clamp_factor (clamped ! (3 * idx + 1)))
              (vz (dL_dcolors ! idx) * clamp_factor (clamped ! (3 * idx + 2))) \<and>
     ComputeColorFromSHBackwardCUDAKernel P deg max_coeffs dirs shs visibility_filter clamped
       dL_dcolors idx (dL_ddirs, dL_dshs) = Some (dL_ddirs[idx := dd], ds) \<and>
     length ds = length dL_dshs \<and>
     (\<forall>k<sh_terms deg. ds ! (idx * max_coeffs + k) = (sh_basis dir ! k) *\<^sub>R g) \<and>
     (\<forall>j<length dL_dshs. j < idx * max_coeffs \<or> idx * max_coeffs + sh_terms deg \<le> j \<longrightarrow>
        ds ! j = dL_dshs ! j) \<and>
     sh_loss g deg dir sh =
       (\<Sum>k\<leftarrow>[0..<sh_terms deg]. dot (ds ! (idx * max_coeffs + k)) (sh k)) +
       (vx g + vy g + vz g) / 2 \<and>
     ((\<lambda>t. sh_loss g deg (Vec3 t (vy dir) (vz dir)) sh) has_real_derivative vx dd) (at (vx dir)) \<and>
     ((\<lambda>t. sh_loss g deg (Vec3 (vx dir) t (vz dir)) sh) has_real_derivative vy dd) (at (vy dir)) \<and>
     ((\<lambda>t. sh_loss g deg (Vec3 (vx dir) (vy dir) t) sh) has_real_derivative vz dd) (at (vz dir))"
proof -
  define dir where "dir = dirs ! idx"
  define sh where "sh = (\<lambda>k. shs ! (idx * max_coeffs + k))"
  define g where "g = Vec3 (vx (dL_dcolors ! idx) * clamp_factor (clamped ! (3 * idx)))
              (vy (dL_dcolors ! idx) * clamp_factor (clamped ! (3 * idx + 1)))
              (vz (dL_dcolors ! idx) * clamp_factor (clamped ! (3 * idx + 2)))"
  define bw where "bw = sh_backward deg dir sh g"
  define n where "n = sh_terms deg"
  define base where "base = idx * max_coeffs"
  define ds where "ds = take base dL_dshs @ fst bw @ drop (base + length (fst bw)) dL_dshs"
  have coeffs: "fst bw = map (\<lambda>k. (sh_basis dir ! k) *\<^sub>R g) [0..<n]"
    unfolding bw_def n_def by (rule sh_backward_coefficients[OF assms(1)])
  then have len: "length (fst bw) = n"
    by simp
  have used: "(if deg > 0 then sh_used deg else 0) \<le> n"
    using sh_used_terms[OF assms(1)] by (simp add: n_def)
  have fits: "base + n \<le> length dL_dshs" "base + n \<le> length shs"
    using assms(5,9) by (simp_all add: base_def n_def)
  have run: "ComputeColorFromSHBackwardCUDAKernel P deg max_coeffs dirs shs visibility_filter
       clamped dL_dcolors idx (dL_ddirs, dL_dshs) = Some (dL_ddirs[idx := snd bw], ds)"
    unfolding ds_def base_def
    by (rule sh_backward_kernel_in[where g = g])
      (use assms fits used len in \<open>simp_all add: g_def bw_def dir_def sh_def base_def\<close>)
  have length_ds: "length ds = length dL_dshs"
    using fits(1) by (simp add: ds_def len)
  have written: "ds ! (base + k) = (sh_basis dir ! k) *\<^sub>R g" if "k < n" for k
    using that fits(1) by (simp add: ds_def nth_append coeffs)
  have kept: "ds ! j = dL_dshs ! j" if "j < length dL_dshs" "j < base \<or> base + n \<le> j" for j
    using that fits(1) by (auto simp: ds_def nth_append len)
  have "(\<Sum>k\<leftarrow>[0..<n]. dot (ds ! (base + k)) (sh k)) =
        (\<Sum>k\<leftarrow>[0..<n]. dot ((sh_basis dir ! k) *\<^sub>R g) (sh k))"
    by (rule arg_cong[where f = sum_list], rule map_cong) (simp_all add: written)
  then have linear: "sh_loss g deg dir sh =
      (\<Sum>k\<leftarrow>[0..<n]. dot (ds ! (base + k)) (sh k)) + (vx g + vy g + vz g) / 2"
    unfolding n_def using sh_loss_linear[OF assms(1), of g dir sh] by (simp add: n_def)
  obtain x y z where d: "dir = Vec3 x y z"
    by (cases dir)
  have dx: "((\<lambda>t. sh_loss g deg (Vec3 t (vy dir) (vz dir)) sh) has_real_derivative vx (snd bw))
      (at (vx dir))"
    unfolding bw_def d using sh_backward_dir_x[OF assms(1), of g y z sh x] by simp
  have dy: "((\<lambda>t. sh_loss g deg (Vec3 (vx dir) t (vz dir)) sh) has_real_derivative vy (snd bw))
      (at (vy dir))"
    unfolding bw_def d using sh_backward_dir_y[OF assms(1), of g x z sh y] by simp
  have dz: "((\<lambda>t. sh_loss g deg (Vec3 (vx dir) (vy dir) t) sh) has_real_derivative vz (snd bw))
      (at (vz dir))"
    unfolding bw_def d using sh_backward_dir_z[OF assms(1), of g x y sh z] by simp
  have W: "\<forall>k<sh_terms deg. ds ! (idx * max_coeffs + k) = (sh_basis dir ! k) *\<^sub>R g"
    using written by (simp add: n_def base_def)
  have K: "\<forall>j<length dL_dshs. j < idx * max_coeffs \<or> idx * max_coeffs + sh_terms deg \<le> j \<longrightarrow>
        ds ! j = dL_dshs ! j"
    using kept by (simp add: n_def base_def)
  have L: "sh_loss g deg dir sh =
       (\<Sum>k\<leftarrow>[0..<sh_terms deg]. dot (ds ! (idx * max_coeffs + k)) (sh k)) +
       (vx g + vy g + vz g) / 2"
    using linear by (simp add: n_def base_def)
  show ?thesis
  proof (intro exI conjI)
    show "dir = dirs ! idx" by (fact dir_def)
    show "sh = (\<lambda>k. shs ! (idx * max_coeffs + k))" by (fact sh_def)
    show "g = Vec3 (vx (dL_dcolors ! idx) * clamp_factor (clamped ! (3 * idx)))
              (vy (dL_dcolors ! idx) * clamp_factor (clamped ! (3 * idx + 1)))
              (vz (dL_dcolors ! idx) * clamp_factor (clamped ! (3 * idx + 2)))" by (fact g_def)
  qed (fact run length_ds W K L dx dy dz)+
qed

theorem sh_backward_kernel_gradients_witness:
  "(1::int) \<in> {0, 1, 2, 3} \<and> (0::nat) < 1 \<and> rd [True] 0 = Some True \<and> 0 < length [Vec3 1 2 3] \<and>
   0 * 4 + sh_terms 1 \<le> length [Vec3 1 2 3, Vec3 (- 1) 0 1, Vec3 0 1 0, Vec3 (- 2) 0 0] \<and>
   0 < length [Vec3 1 1 1] \<and> 3 * 0 + 2 < length [False, True, False] \<and> 0 < length [Vec3 9 9 9] \<and>
   0 * 4 + sh_terms 1 \<le> length [Vec3 9 9 9, Vec3 9 9 9, Vec3 9 9 9, Vec3 9 9 9, Vec3 8 8 8] \<and>
   (\<exists>dd ds. ComputeColorFromSHBackwardCUDAKernel 1 1 4 [Vec3 1 2 3]
        [Vec3 1 2 3, Vec3 (- 1) 0 1, Vec3 0 1 0, Vec3 (- 2) 0 0] [True] [False, True, False]
        [Vec3 1 1 1] 0
        ([Vec3 9 9 9], [Vec3 9 9 9, Vec3 9 9 9, Vec3 9 9 9, Vec3 9 9 9, Vec3 8 8 8]) =
        Some ([dd], ds) \<and>
      ds ! 3 = (- SH_C1 * 1) *\<^sub>R Vec3 1 0 1 \<and> ds ! 4 = Vec3 8 8 8 \<and>
      ((\<lambda>t. sh_loss (Vec3 1 0 1) 1 (Vec3 t 2 3)
          (\<lambda>k. [Vec3 1 2 3, Vec3 (- 1) 0 1, Vec3 0 1 0, Vec3 (- 2) 0 0] ! k))
        has_real_derivative vx dd) (at 1))"
  using sh_backward_kernel_gradients [of 1 0 1 "[True]" "[Vec3 1 2 3]" 4
      "[Vec3 1 2 3, Vec3 (- 1) 0 1, Vec3 0 1 0, Vec3 (- 2) 0 0]" "[Vec3 1 1 1]"
      "[False, True, False]" "[Vec3 9 9 9]"
      "[Vec3 9 9 9, Vec3 9 9 9, Vec3 9 9 9, Vec3 9 9 9, Vec3 8 8 8]"]
  apply (simp add: sh_terms_simps clamp_factor_def)
  apply (elim exE conjE)
  subgoal for dd ds
    apply (rule exI[of _ dd], rule exI[of _ ds])
    apply (simp add: sh_basis_def)
    done
  done

section \<open>Workers without a visible primitive\<close>

text \<open>
  A worker with a visible primitive reads its inputs, and a worker with \<open>idx < P\<close> reads
  the mask: on arrays too short for these reads the computation is undefined.
\<close>

lemma visible_worker_reads:
  assumes "idx < P" "rd visible idx = Some True"
  shows "ComputeColorFromSHForwardCUDAKernel P deg max_coeffs [] shs visible idx out_f = None"
    and "ComputeColorFromSHBackwardCUDAKernel P deg max_coeffs [] shs visible clamped dL_dcolors
           idx out_b = None"
    and "computeCov3DForwardCUDAKernel P [] uquats visible idx cov3Ds = None"
    and "computeCov3DBackwardCUDAKernel P [] uquats visible dL_dcov3Ds idx out_c = None"
  using assms
  by (simp_all add: ComputeColorFromSHForwardCUDAKernel_def
      ComputeColorFromSHBackwardCUDAKernel_def
      computeCov3DForwardCUDAKernel_def computeCov3DBackwardCUDAKernel_def)

lemma mask_read_after_bound_check:
  assumes "idx < P"
  shows "ComputeColorFromSHForwardCUDAKernel P deg max_coeffs dirs shs [] idx out_f = None"
    and "computeCov3DForwardCUDAKernel P scales uquats [] idx cov3Ds = None"
  using assms
  by (simp_all add: ComputeColorFromSHForwardCUDAKernel_def computeCov3DForwardCUDAKernel_def)

text \<open>
  Claim C8. In each of the four kernels a worker with \<open>idx \<ge> P\<close>, or with a false
  visibility mask at \<open>idx\<close>, returns with every output array unchanged. It does so
  whatever the input arrays are, also when they are empty, so it reads none of the
  inputs of the primitive; and for \<open>idx \<ge> P\<close> it does so even when the mask is empty, so
  the test \<open>idx < P\<close> is made before the mask is read.
\<close>

theorem invisible_worker_frame:
  assumes "P \<le> idx \<or> rd visible idx = Some False"
  shows "ComputeColorFromSHForwardCUDAKernel P deg max_coeffs dirs shs visible idx out_f = Some out_f \<and>
         ComputeColorFromSHBackwardCUDAKernel P deg max_coeffs dirs shs visible clamped dL_dcolors
           idx out_b = Some out_b \<and>
         computeCov3DForwardCUDAKernel P scales uquats visible idx cov3Ds = Some cov3Ds \<and>
         computeCov3DBackwardCUDAKernel P scales uquats visible dL_dcov3Ds idx out_c = Some out_c \<and>
         (rd visible idx = Some False \<longrightarrow>
            ComputeColorFromSHForwardCUDAKernel P deg max_coeffs [] [] visible idx out_f = Some out_f \<and>
            ComputeColorFromSHBackwardCUDAKernel P deg max_coeffs [] [] visible [] [] idx out_b =
              Some out_b \<and>
            computeCov3DForwardCUDAKernel P [] [] visible idx cov3Ds = Some cov3Ds \<and>
            computeCov3DBackwardCUDAKernel P [] [] visible [] idx out_c = Some out_c) \<and>
         (P \<le> idx \<longrightarrow>
            ComputeColorFromSHForwardCUDAKernel P deg max_coeffs [] [] [] idx out_f = Some out_f \<and>
            ComputeColorFromSHBackwardCUDAKernel P deg max_coeffs [] [] [] [] [] idx out_b =
              Some out_b \<and>
            computeCov3DForwardCUDAKernel P [] [] [] idx cov3Ds = Some cov3Ds \<and>
            computeCov3DBackwardCUDAKernel P [] [] [] [] idx out_c = Some out_c)"
  using assms
  by (auto simp: ComputeColorFromSHForwardCUDAKernel_def ComputeColorFromSHBackwardCUDAKernel_def
      computeCov3DForwardCUDAKernel_def computeCov3DBackwardCUDAKernel_def)

theorem invisible_worker_frame_witness:
  "((1::nat) \<le> 1 \<or> rd [True, False] 1 = Some False) \<and>
   rd [True, False] 1 = Some False \<and> (1::nat) \<le> 1 \<and>
   ComputeColorFromSHForwardCUDAKernel 1 3 16 [] [] [True, False] 1 ([Vec3 7 7 7], [True]) =
     Some ([Vec3 7 7 7], [True]) \<and>
   ComputeColorFromSHBackwardCUDAKernel 1 3 16 [] [] [] [] [] 1 ([Vec3 7 7 7], [Vec3 8 8 8]) =
     Some ([Vec3 7 7 7], [Vec3 8 8 8]) \<and>
   computeCov3DForwardCUDAKernel 1 [] [] [] 1 [7, 7, 7, 7, 7, 7] = Some [7, 7, 7, 7, 7, 7] \<and>
   computeCov3DBackwardCUDAKernel 1 [] [] [True, False] [] 1 ([Vec3 7 7 7], [Vec4 7 7 7 7]) =
     Some ([Vec3 7 7 7], [Vec4 7 7 7 7])"
  using invisible_worker_frame [of 1 1 "[True, False]" 3 16 "[]" "[]" "([Vec3 7 7 7], [True])"
      "[]" "[]" "([Vec3 7 7 7], [Vec3 8 8 8])" "[]" "[]" "[7, 7, 7, 7, 7, 7]" "[]"
      "([Vec3 7 7 7], [Vec4 7 7 7 7])"]
  by simp

section \<open>Host functions\<close>

text \<open>
  Claim C9, as amended. With no primitive, the two host functions of the covariance
  builder issue no launch (their launch is guarded by \<^verbatim>\<open>P != 0\<close>) and return empty
  outputs. The two launchers of the colour evaluator have no test of \<open>P\<close>: with
  \<open>P = 0\<close> they issue their launch with a grid of \<open>(0 + 255) / 256 = 0\<close> worker groups,
  so that no worker runs and the outputs keep their values.
\<close>

theorem launch_for_zero_primitives:
  "launches (computeCov3DForward [] uquats visible) = [] \<and>
   memory (computeCov3DForward [] uquats visible) = Some [] \<and>
   launches (computeCov3DBackward [] uquats visible dL_dcov3Ds) = [] \<and>
   memory (computeCov3DBackward [] uquats visible dL_dcov3Ds) = Some ([], []) \<and>
   launches (ComputeColorFromSHForwardCUDA 0 deg max_coeffs dirs shs visibility_filter out_f) =
     [(0, 256)] \<and>
   memory (ComputeColorFromSHForwardCUDA 0 deg max_coeffs dirs shs visibility_filter out_f) =
     Some out_f \<and>
   launches (ComputeColorFromSHBackwardCUDA 0 deg max_coeffs dirs shs visibility_filter clamped
     dL_dcolors out_b) = [(0, 256)] \<and>
   memory (ComputeColorFromSHBackwardCUDA 0 deg max_coeffs dirs shs visibility_filter clamped
     dL_dcolors out_b) = Some out_b"
  by (simp add: computeCov3DForward_def computeCov3DBackward_def ComputeColorFromSHForwardCUDA_def
      ComputeColorFromSHBackwardCUDA_def launch_zero)

text \<open>
  The launcher of the forward colour evaluator does not skip its launch for \<open>P = 0\<close>.
\<close>

theorem sh_launch_not_skipped_counterexample:
  "launches (ComputeColorFromSHForwardCUDA 0 0 1 [] [] [] ([], [])) \<noteq> []"
  by (simp add: ComputeColorFromSHForwardCUDA_def)

lemma block_update_nth:
  assumes "a + length vs \<le> length xs" "m < length xs"
  shows "(take a xs @ vs @ drop (a + length vs) xs) ! m =
         (if a \<le> m \<and> m < a + length vs then vs ! (m - a) else xs ! m)"
  using assms by (auto simp: nth_append)

lemma cov_forward_worker_zero:
  assumes len: "length scales = P" "length uquats = P" "length visible = P"
    and inv: "cov_rows_zero P visible cov"
  shows "\<exists>cov'. computeCov3DForwardCUDAKernel P scales uquats visible idx cov = Some cov' \<and>
           cov_rows_zero P visible cov'"
proof (cases "idx < P \<and> visible ! idx")
  case False
  then have "computeCov3DForwardCUDAKernel P scales uquats visible idx cov = Some cov"
    using len by (auto simp: computeCov3DForwardCUDAKernel_def)
  with inv show ?thesis by simp
next
  case True
  define six where "six = upper_triangle
        (transpose_mat3 (diag_matrix (scales ! idx) * transpose_mat3 (rotation_matrix (uquats ! idx))) *
         (diag_matrix (scales ! idx) * transpose_mat3 (rotation_matrix (uquats ! idx))))"
  define cov' where "cov' = take (6 * idx) cov @ six @ drop (6 * idx + 6) cov"
  have six: "length six = 6"
    by (simp add: six_def upper_triangle_def)
  have fits: "6 * idx + length six \<le> length cov"
    using True inv by (simp add: cov_rows_zero_def six)
  have run: "computeCov3DForwardCUDAKernel P scales uquats visible idx cov = Some cov'"
    unfolding cov'_def six_def
    using True len fits six
    by (simp add: cov3d_forward_kernel_in compute_cov3d_forward_in)
  have "cov' ! (6 * i + j) = 0" if "i < P" "\<not> visible ! i" "j < 6" for i j
  proof -
    have "i \<noteq> idx" using that True by auto
    then have out: "\<not> (6 * idx \<le> 6 * i + j \<and> 6 * i + j < 6 * idx + length six)"
      using that(3) six by arith
    have "6 * i + j < length cov"
      using that inv by (simp add: cov_rows_zero_def)
    then have "cov' ! (6 * i + j) = cov ! (6 * i + j)"
      using block_update_nth[OF fits, of "6 * i + j"] out by (auto simp: cov'_def six)
    then show ?thesis
      using that inv by (simp add: cov_rows_zero_def)
  qed
  moreover have "length cov' = 6 * P"
    using fits inv by (simp add: cov'_def cov_rows_zero_def six)
  ultimately show ?thesis
    using run by (simp add: cov_rows_zero_def)
qed

lemma cov_backward_worker_zero:
  assumes len: "length scales = P" "length uquats = P" "length visible = P"
    "length dL_dcov3Ds = 6 * P"
    and inv: "grad_rows_zero P visible out"
  shows "\<exists>out'. computeCov3DBackwardCUDAKernel P scales uquats visible dL_dcov3Ds idx out = Some out' \<and>
           grad_rows_zero P visible out'"
proof (cases "idx < P \<and> visible ! idx")
  case False
  then have "computeCov3DBackwardCUDAKernel P scales uquats visible dL_dcov3Ds idx out = Some out"
    using len by (auto simp: computeCov3DBackwardCUDAKernel_def)
  with inv show ?thesis by simp
next
  case True
  obtain ds dq where out: "out = (ds, dq)"
    by (cases out)
  have "6 * idx + 6 \<le> length dL_dcov3Ds"
    using True len by simp
  then have "computeCov3DBackwardCUDAKernel P scales uquats visible dL_dcov3Ds idx (ds, dq) =
      Some (ds[idx := fst (compute_cov3_backward (scales ! idx) (uquats ! idx)
                   (\<lambda>k. dL_dcov3Ds ! (6 * idx + k)))],
            dq[idx := snd (compute_cov3_backward (scales ! idx) (uquats ! idx)
                   (\<lambda>k. dL_dcov3Ds ! (6 * idx + k)))])"
    using True len inv by (intro cov3_backward_kernel_in) (simp_all add: grad_rows_zero_def out)
  moreover have "\<forall>i. \<not> visible ! i \<longrightarrow> i \<noteq> idx"
    using True by auto
  ultimately show ?thesis
    using inv by (auto simp: grad_rows_zero_def out nth_list_update)
qed

text \<open>
  Claim C10. For inputs of matching sizes, \<^verbatim>\<open>computeCov3DForward\<close> returns a tensor of
  \<open>6 N\<close> numbers and \<^verbatim>\<open>computeCov3DBackward\<close> returns \<open>N\<close> scale gradients and \<open>N\<close>
  quaternion gradients, all three created as zeros and written by the workers of visible
  primitives only: every row of an invisible primitive is zero in the returned tensors.
\<close>

theorem cov3d_host_rows_zero:
  assumes "length uquats = length scales" "length visible = length scales"
    "length dL_dcov3Ds = 6 * length scales"
  shows "\<exists>cov ds dq.
     memory (computeCov3DForward scales uquats visible) = Some cov \<and>
     length cov = 6 * length scales \<and>
     (\<forall>i<length scales. \<not> visible ! i \<longrightarrow> (\<forall>j<6. cov ! (6 * i + j) = 0)) \<and>
     memory (computeCov3DBackward scales uquats visible dL_dcov3Ds) = Some (ds, dq) \<and>
     length ds = length scales \<and> length dq = length scales \<and>
     (\<forall>i<length scales. \<not> visible ! i \<longrightarrow> ds ! i = Vec3 0 0 0 \<and> dq ! i = Vec4 0 0 0 0)"
proof -
  define P where "P = length scales"
  have z1: "cov_rows_zero P visible (replicate (P * 6) 0)"
    by (simp add: cov_rows_zero_def)
  have "\<exists>cov. launch g 256 (computeCov3DForwardCUDAKernel P scales uquats visible)
          (replicate (P * 6) 0) = Some cov \<and> cov_rows_zero P visible cov" for g
    by (rule launch_invariant[where I = "cov_rows_zero P visible", OF z1])
      (rule cov_forward_worker_zero, use assms in \<open>simp_all add: P_def\<close>)
  then have fwd: "\<exists>cov. memory (computeCov3DForward scales uquats visible) = Some cov \<and>
      cov_rows_zero P visible cov"
    using z1 by (auto simp: computeCov3DForward_def Let_def P_def)
  have z2: "grad_rows_zero P visible (replicate P (Vec3 0 0 0), replicate P (Vec4 0 0 0 0))"
    by (simp add: grad_rows_zero_def)
  have "\<exists>out. launch g 256 (computeCov3DBackwardCUDAKernel P scales uquats visible dL_dcov3Ds)
          (replicate P (Vec3 0 0 0), replicate P (Vec4 0 0 0 0)) = Some out \<and>
          grad_rows_zero P visible out" for g
    by (rule launch_invariant[where I = "grad_rows_zero P visible", OF z2])
      (rule cov_backward_worker_zero, use assms in \<open>simp_all add: P_def\<close>)
  then have bwd: "\<exists>out. memory (computeCov3DBackward scales uquats visible dL_dcov3Ds) = Some out \<and>
      grad_rows_zero P visible out"
    using z2 by (auto simp: computeCov3DBackward_def Let_def P_def)
  from fwd bwd show ?thesis
    unfolding cov_rows_zero_def grad_rows_zero_def P_def by fastforce
qed

theorem cov3d_host_rows_zero_witness:
  "length [Vec4 1 0 0 0, Vec4 (3/5) 0 0 (4/5)] = length [Vec3 1 2 3, Vec3 1 1 1] \<and>
   length [True, False] = length [Vec3 1 2 3, Vec3 1 1 1] \<and>
   length [1, 2, 3, 4, 5, 6, 7, 8, 9, 10, 11, 12 :: real] = 6 * length [Vec3 1 2 3, Vec3 1 1 1] \<and>
   (1::nat) < length [Vec3 1 2 3, Vec3 1 1 1] \<and> \<not> [True, False] ! 1 \<and> (0::nat) < 6 \<and>
   (\<exists>cov ds dq.
      memory (computeCov3DForward [Vec3 1 2 3, Vec3 1 1 1] [Vec4 1 0 0 0, Vec4 (3/5) 0 0 (4/5)]
        [True, False]) = Some cov \<and>
      cov ! (6 * 1 + 0) = 0 \<and>
      memory (computeCov3DBackward [Vec3 1 2 3, Vec3 1 1 1] [Vec4 1 0 0 0, Vec4 (3/5) 0 0 (4/5)]
        [True, False] [1, 2, 3, 4, 5, 6, 7, 8, 9, 10, 11, 12]) = Some (ds, dq) \<and>
      ds ! 1 = Vec3 0 0 0 \<and> dq ! 1 = Vec4 0 0 0 0)"
proof -
  have h: "length [Vec4 1 0 0 0, Vec4 (3/5) 0 0 (4/5)] = length [Vec3 1 2 3, Vec3 1 1 1]"
    "length [True, False] = length [Vec3 1 2 3, Vec3 1 1 1]"
    "length [1, 2, 3, 4, 5, 6, 7, 8, 9, 10, 11, 12 :: real] = 6 * length [Vec3 1 2 3, Vec3 1 1 1]"
    by simp_all
  have i: "(1::nat) < length [Vec3 1 2 3, Vec3 1 1 1]" "\<not> [True, False] ! 1" "(0::nat) < 6"
    by simp_all
  from cov3d_host_rows_zero [OF h] obtain cov ds dq where
    f: "memory (computeCov3DForward [Vec3 1 2 3, Vec3 1 1 1]
          [Vec4 1 0 0 0, Vec4 (3/5) 0 0 (4/5)] [True, False]) = Some cov"
    and fz: "\<forall>i<length [Vec3 1 2 3, Vec3 1 1 1]. \<not> [True, False] ! i \<longrightarrow>
          (\<forall>j<6. cov ! (6 * i + j) = 0)"
    and b: "memory (computeCov3DBackward [Vec3 1 2 3, Vec3 1 1 1]
          [Vec4 1 0 0 0, Vec4 (3/5) 0 0 (4/5)] [True, False]
          [1, 2, 3, 4, 5, 6, 7, 8, 9, 10, 11, 12]) = Some (ds, dq)"
    and bz: "\<forall>i<length [Vec3 1 2 3, Vec3 1 1 1]. \<not> [True, False] ! i \<longrightarrow>
          ds ! i = Vec3 0 0 0 \<and> dq ! i = Vec4 0 0 0 0"
    by blast
  from fz i have "cov ! (6 * 1 + 0) = 0"
    by blast
  moreover from bz i have "ds ! 1 = Vec3 0 0 0 \<and> dq ! 1 = Vec4 0 0 0 0"
    by blast
  ultimately show ?thesis
    using f b h i by blast
qed

end
